theory Spec2Isabelle
  imports Complex_Main "HOL-Library.Word"
begin

section \<open>Receipt rendering and printer dispatch of the PDV (pedidos2.py)\<close>

text \<open>
  The development embeds the class \<open>ThermalPrinter\<close> of \<open>pedidos2.py\<close> together with
  \<open>Database.get_setting\<close>, and the Python built-ins these methods call
  (\<open>str.center\<close>, slicing, \<open>str * int\<close>, \<open>str.join\<close>, \<open>str.encode\<close>, \<open>int\<close>, the
  format specification \<open>.2f\<close>).

  Conventions of the embedding.
  \<^item> A Python \<open>str\<close> is a list of code points (the integers that \<open>ord\<close> returns);
    \<open>len\<close> is \<open>length\<close>.
    The literal \<open>'abc'\<close> of the source is written \<open>lit ''abc''\<close>.
  \<^item> A Python \<open>int\<close> is an \<open>int\<close>. Conversions between \<open>int\<close> and \<open>str\<close> are modelled
    without the interpreter's configurable digit limit (\<open>sys.set_int_max_str_digits\<close>).
  \<^item> A currency amount is a Python \<open>float\<close>; the model carries the exact value of a
    finite float as a rational number. The format \<open>.2f\<close> rounds that exact value
    correctly, ties to even, and prints the sign of a negative value. Infinities,
    NaN and the negative zero are outside the model.
  \<^item> An exception is a value of type \<open>error\<close>; a method that may raise returns
    \<open>error + 'a\<close>. \<open>ConfigError\<close> is the error of the specification for a malformed
    setting; no statement of the program raises it.
  \<^item> Calls on sockets and on the ESC/POS device are recorded as a list of events; whether
    such a call raises is decided by an environment that the model takes as a parameter.
\<close>

subsection \<open>Python strings and built-ins\<close>

type_synonym pystr = "int list"

type_synonym byte = "8 word"

datatype error =
    ValueError
  | UnicodeEncodeError
  | RuntimeError
  | OSError
  | ConnectionRefusedError
  | TimeoutError
  | ConfigError

definition lit :: "string \<Rightarrow> pystr" where
  "lit s = map of_char s"

text \<open>\<open>d.get(k, default)\<close> on a dictionary.\<close>

definition dict_get :: "('k \<rightharpoonup> 'v) \<Rightarrow> 'k \<Rightarrow> 'v \<Rightarrow> 'v" where
  "dict_get d k dflt = (case d k of None \<Rightarrow> dflt | Some v \<Rightarrow> v)"

text \<open>\<open>c * n\<close> for a one-character string \<open>c\<close>: a negative count gives the empty string.\<close>

definition py_repeat :: "int \<Rightarrow> int \<Rightarrow> pystr" where
  "py_repeat c n = replicate (nat n) c"

text \<open>\<open>s[:k]\<close>: a negative \<open>k\<close> counts from the end of the string.\<close>

definition slice_to :: "pystr \<Rightarrow> int \<Rightarrow> pystr" where
  "slice_to s k = (if k < 0 then take (nat (int (length s) + k)) s else take (nat k) s)"

text \<open>
  \<open>s.center(width)\<close> with the fill character space, as CPython pads: the string is
  returned unchanged when it is not shorter than \<open>width\<close>; otherwise
  \<open>left = marg / 2 + (marg & width & 1)\<close> with \<open>marg = width - len(s)\<close>.
\<close>

definition center :: "pystr \<Rightarrow> nat \<Rightarrow> pystr" where
  "center s width =
     (if width \<le> length s then s
      else let marg = width - length s;
               left = marg div 2 + (if odd marg \<and> odd width then 1 else 0)
           in replicate left 32 @ s @ replicate (marg - left) 32)"

text \<open>
  \<open>str(i)\<close> and the format \<open>{q}\<close> of an integer: the decimal digits of \<open>|i|\<close>, after a
  \<open>-\<close> for a negative number. \<open>str_digits\<close> is only applied to numbers from 0 on.
\<close>

function str_digits :: "int \<Rightarrow> pystr" where
  "str_digits n =
     (if n < 10 then [48 + n] else str_digits (n div 10) @ [48 + n mod 10])"
  by pat_completeness auto
termination
  by (relation "measure nat") auto

declare str_digits.simps [simp del]

definition str_int :: "int \<Rightarrow> pystr" where
  "str_int i = (if i < 0 then 45 # str_digits (- i) else str_digits i)"

text \<open>
  The format \<open>{p:.2f}\<close> of a float with exact value \<open>p\<close>: the number of hundredths
  nearest to \<open>|p|\<close>, ties to even, printed with a leading \<open>-\<close> for a negative value.
\<close>

definition round_half_even :: "rat \<Rightarrow> int" where
  "round_half_even r =
     (let f = \<lfloor>r\<rfloor>; d = r - of_int f
      in if d < 1 / 2 then f else if 1 / 2 < d then f + 1
         else if even f then f else f + 1)"

definition cents :: "rat \<Rightarrow> int" where
  "cents p = round_half_even (\<bar>p\<bar> * 100)"

definition fmt2f :: "rat \<Rightarrow> pystr" where
  "fmt2f p =
     (let c = cents p
      in (if p < 0 then [45] else []) @ str_digits (c div 100) @ [46]
         @ [48 + (c mod 100) div 10, 48 + c mod 10])"

text \<open>\<open>sep.join(xs)\<close>.\<close>

fun py_join :: "pystr \<Rightarrow> pystr list \<Rightarrow> pystr" where
  "py_join sep [] = []"
| "py_join sep [x] = x"
| "py_join sep (x # y # ys) = x @ sep @ py_join sep (y # ys)"

text \<open>
  \<open>s.encode('utf-8')\<close>: one to four bytes for each code point; a surrogate
  (\<open>U+D800\<close> to \<open>U+DFFF\<close>) cannot be encoded and raises \<open>UnicodeEncodeError\<close>.
  Numbers below 0 or from \<open>0x110000\<close> on are not characters of a Python string.
\<close>

definition encodable :: "int \<Rightarrow> bool" where
  "encodable c = ((0 \<le> c \<and> c < 0xD800) \<or> (0xE000 \<le> c \<and> c < 0x110000))"

definition utf8_bytes :: "int \<Rightarrow> byte list" where
  "utf8_bytes c =
     (if c < 0x80 then [of_int c]
      else if c < 0x800 then [of_int (0xC0 + c div 64), of_int (0x80 + c mod 64)]
      else if c < 0x10000 then
        [of_int (0xE0 + c div 4096), of_int (0x80 + (c div 64) mod 64), of_int (0x80 + c mod 64)]
      else
        [of_int (0xF0 + c div 262144), of_int (0x80 + (c div 4096) mod 64),
         of_int (0x80 + (c div 64) mod 64), of_int (0x80 + c mod 64)])"

definition encode_utf8 :: "pystr \<Rightarrow> error + byte list" where
  "encode_utf8 s =
     (if list_all encodable s then Inr (concat (map utf8_bytes s))
      else Inl UnicodeEncodeError)"

subsection \<open>The receipt formatter: \<open>ThermalPrinter._build_text\<close>\<close>

type_synonym store = "pystr \<rightharpoonup> pystr"

type_synonym cart_line = "int \<times> pystr \<times> rat"

text \<open>The body of the loop \<open>for q,n,p in items\<close>: the row appended for one cart line.\<close>

definition item_row :: "cart_line \<Rightarrow> pystr" where
  "item_row item =
     (case item of (q, n, p) \<Rightarrow>
        let line = str_int q @ lit ''x '' @ n;
            price_line = fmt2f p;
            line = (if int (length line) + int (length price_line) > 32
                    then slice_to line (32 - int (length price_line) - 1) else line)
        in line @ py_repeat 32 (32 - int (length line) - int (length price_line)) @ price_line)"

text \<open>The row \<open>'TOTAL' + ' '*(27) + f"{total:.2f}"\<close>.\<close>

definition total_row :: "rat \<Rightarrow> pystr" where
  "total_row tot = lit ''TOTAL'' @ py_repeat 32 27 @ fmt2f tot"

text \<open>The list \<open>lines\<close> as it stands before \<open>'\n'.join(lines)\<close>. The parameter \<open>total\<close> of
  the source is written \<open>tot\<close>, since \<open>total\<close> is a constant of HOL.\<close>

definition build_lines :: "store \<Rightarrow> cart_line list \<Rightarrow> rat \<Rightarrow> pystr \<Rightarrow> pystr list" where
  "build_lines store items tot payment =
     (let name = dict_get store (lit ''name'') (lit ''Minha Loja'');
          addr = dict_get store (lit ''address'') [];
          phone = dict_get store (lit ''phone'') []
      in [center name 32]
         @ (if addr \<noteq> [] then [center addr 32] else [])
         @ (if phone \<noteq> [] then [center (lit ''Tel: '' @ phone) 32] else [])
         @ [py_repeat 45 32]
         @ map item_row items
         @ [py_repeat 45 32,
            total_row tot,
            lit ''Pagamento: '' @ payment,
            py_repeat 45 32,
            lit ''Obrigado!'',
            [10]])"

definition build_text :: "store \<Rightarrow> cart_line list \<Rightarrow> rat \<Rightarrow> pystr \<Rightarrow> error + byte list" where
  "build_text store items tot payment =
     encode_utf8 (py_join [10] (build_lines store items tot payment))"

subsection \<open>The built-in \<open>int(s, base)\<close>\<close>

text \<open>
  \<open>int\<close> first maps every character from 127 on to a space, to an ASCII digit or to
  \<open>?\<close>, as the Unicode database classes it; a string of ASCII characters is left as
  it is. The database is not part of the program: the model takes its two tables as
  parameters. The result is then read as: white space, an optional sign, for base 16
  an optional \<open>0x\<close> or \<open>0X\<close> (which one underscore may follow), digits with single
  underscores between them, white space. Anything else raises \<open>ValueError\<close>.
\<close>

record unicode_db =
  unicode_isspace :: "int \<Rightarrow> bool"
  unicode_todecimal :: "int \<Rightarrow> int option"

definition to_ascii :: "unicode_db \<Rightarrow> pystr \<Rightarrow> pystr" where
  "to_ascii u s =
     (if list_all (\<lambda>c. c < 128) s then s
      else map (\<lambda>c. if c < 127 then c
                     else if unicode_isspace u c then 32
                     else (case unicode_todecimal u c of Some d \<Rightarrow> 48 + d | None \<Rightarrow> 63)) s)"

definition is_space :: "int \<Rightarrow> bool" where
  "is_space c = (c = 32 \<or> (9 \<le> c \<and> c \<le> 13))"

definition digit_value :: "int \<Rightarrow> int" where
  "digit_value c =
     (if 48 \<le> c \<and> c \<le> 57 then c - 48
      else if 97 \<le> c \<and> c \<le> 122 then c - 87
      else if 65 \<le> c \<and> c \<le> 90 then c - 55
      else 37)"

definition strip_sign :: "pystr \<Rightarrow> bool \<times> pystr" where
  "strip_sign s =
     (case s of
        [] \<Rightarrow> (False, [])
      | c # cs \<Rightarrow> if c = 43 then (False, cs) else if c = 45 then (True, cs) else (False, s))"

definition strip_prefix :: "int \<Rightarrow> pystr \<Rightarrow> pystr" where
  "strip_prefix base s =
     (case s of
        c # x # cs \<Rightarrow>
          if base = 16 \<and> c = 48 \<and> (x = 120 \<or> x = 88)
          then (case cs of [] \<Rightarrow> cs | y # cs' \<Rightarrow> if y = 95 then cs' else cs)
          else s
      | _ \<Rightarrow> s)"

text \<open>
  The digits: \<open>scan_digits base prev acc s\<close> reads digits and underscores from \<open>s\<close>,
  where \<open>prev\<close> tells that the character before was an underscore; it returns the value
  read and the rest of the string, or nothing for a doubled or a final underscore.
\<close>

fun scan_digits :: "int \<Rightarrow> bool \<Rightarrow> int \<Rightarrow> pystr \<Rightarrow> (int \<times> pystr) option" where
  "scan_digits base prev acc [] = (if prev then None else Some (acc, []))"
| "scan_digits base prev acc (c # cs) =
     (if c = 95 then (if prev then None else scan_digits base True acc cs)
      else if digit_value c < base
      then scan_digits base False (acc * base + digit_value c) cs
      else if prev then None else Some (acc, c # cs))"

definition py_int :: "unicode_db \<Rightarrow> pystr \<Rightarrow> int \<Rightarrow> error + int" where
  "py_int u s base =
     (case strip_sign (dropWhile is_space (to_ascii u s)) of
        (neg, s1) \<Rightarrow>
          (case strip_prefix base s1 of
             [] \<Rightarrow> Inl ValueError
           | c # cs \<Rightarrow>
               if digit_value c < base then
                 (case scan_digits base False 0 (c # cs) of
                    None \<Rightarrow> Inl ValueError
                  | Some (v, rest) \<Rightarrow>
                      if dropWhile is_space rest = [] then Inr (if neg then - v else v)
                      else Inl ValueError)
               else Inl ValueError))"

subsection \<open>The settings table: \<open>Database.get_setting\<close>\<close>

text \<open>
  The three tables of the SQLite file. \<open>settings\<close> has the primary key \<open>k\<close> and is a
  map; \<open>get_setting\<close> runs one \<open>SELECT\<close> and returns the value found or the default.
\<close>

record database =
  products :: "(nat \<times> pystr \<times> pystr \<times> rat) list"
  sales :: "(nat \<times> pystr \<times> rat \<times> pystr \<times> pystr) list"
  settings :: "pystr \<rightharpoonup> pystr"

definition get_setting :: "database \<Rightarrow> pystr \<Rightarrow> pystr \<Rightarrow> pystr" where
  "get_setting db k dflt = (case settings db k of Some v \<Rightarrow> v | None \<Rightarrow> dflt)"

subsection \<open>Sockets, the ESC/POS device and the events of a call\<close>

text \<open>
  The environment says whether the module \<open>escpos\<close> could be imported
  (\<open>ESC_POS_AVAILABLE\<close>) and which calls on the socket and on the device raise:
  \<open>None\<close> for a call that returns, \<open>Some e\<close> for one that raises \<open>e\<close>. The calls
  \<open>p.text\<close> are numbered from 0, so that any one of them may be the one that fails.
\<close>

record environment =
  ESC_POS_AVAILABLE :: bool
  unicode :: unicode_db
  socket_create :: "error option"
  socket_connect :: "pystr \<Rightarrow> int \<Rightarrow> error option"
  socket_sendall :: "byte list \<Rightarrow> error option"
  usb_open :: "int \<Rightarrow> int \<Rightarrow> error option"
  usb_text :: "nat \<Rightarrow> pystr \<Rightarrow> error option"
  usb_cut :: "error option"

datatype io_event =
    SocketOpen
  | SocketSetTimeout nat
  | SocketConnect pystr int
  | SocketSendAll "byte list"
  | SocketClose
  | UsbOpen int int
  | UsbText pystr
  | UsbCut
  | UsbClose

subsection \<open>\<open>ThermalPrinter._print_network\<close>\<close>

text \<open>
  The \<open>with\<close> statement closes the socket when its block is left, by return or by
  exception; \<open>except Exception as e: raise\<close> raises the exception again.
\<close>

definition print_network ::
  "environment \<Rightarrow> pystr \<Rightarrow> int \<Rightarrow> byte list \<Rightarrow> io_event list \<times> (error + bool)" where
  "print_network env ip port data_bytes =
     (case socket_create env of
        Some e \<Rightarrow> ([], Inl e)
      | None \<Rightarrow>
          (case socket_connect env ip port of
             Some e \<Rightarrow>
               ([SocketOpen, SocketSetTimeout 5, SocketConnect ip port, SocketClose], Inl e)
           | None \<Rightarrow>
               (case socket_sendall env data_bytes of
                  Some e \<Rightarrow>
                    ([SocketOpen, SocketSetTimeout 5, SocketConnect ip port,
                      SocketSendAll data_bytes, SocketClose], Inl e)
                | None \<Rightarrow>
                    ([SocketOpen, SocketSetTimeout 5, SocketConnect ip port,
                      SocketSendAll data_bytes, SocketClose], Inr True))))"

subsection \<open>\<open>ThermalPrinter._print_escpos_usb\<close>\<close>

text \<open>The arguments of the calls \<open>p.text\<close>, in the order of the calls.\<close>

definition usb_lines :: "store \<Rightarrow> cart_line list \<Rightarrow> rat \<Rightarrow> pystr \<Rightarrow> pystr list" where
  "usb_lines store items tot payment =
     [dict_get store (lit ''name'') [] @ [10],
      py_repeat 45 32 @ [10]]
     @ map (\<lambda>(q, n, pr). str_int q @ lit ''x '' @ n @ lit '' - '' @ fmt2f pr @ [10]) items
     @ [py_repeat 45 32 @ [10],
        lit ''TOTAL: '' @ fmt2f tot @ [10],
        lit ''Pagamento: '' @ payment @ [10]]"

text \<open>The calls \<open>p.text\<close> one after the other; the first that raises ends the method.\<close>

fun usb_texts :: "environment \<Rightarrow> nat \<Rightarrow> pystr list \<Rightarrow> io_event list \<times> error option" where
  "usb_texts env k [] = ([], None)"
| "usb_texts env k (t # ts) =
     (case usb_text env k t of
        Some e \<Rightarrow> ([UsbText t], Some e)
      | None \<Rightarrow> (case usb_texts env (Suc k) ts of (evs, r) \<Rightarrow> (UsbText t # evs, r)))"

definition print_escpos_usb ::
  "environment \<Rightarrow> int \<Rightarrow> int \<Rightarrow> store \<Rightarrow> cart_line list \<Rightarrow> rat \<Rightarrow> pystr
     \<Rightarrow> io_event list \<times> (error + bool)" where
  "print_escpos_usb env vendor product store items tot payment =
     (if \<not> ESC_POS_AVAILABLE env then ([], Inl RuntimeError)
      else
        (case usb_open env vendor product of
           Some e \<Rightarrow> ([UsbOpen vendor product], Inl e)
         | None \<Rightarrow>
             (case usb_texts env 0 (usb_lines store items tot payment) of
                (evs, Some e) \<Rightarrow> (UsbOpen vendor product # evs, Inl e)
              | (evs, None) \<Rightarrow>
                  (case usb_cut env of
                     Some e \<Rightarrow> (UsbOpen vendor product # evs @ [UsbCut], Inl e)
                   | None \<Rightarrow> (UsbOpen vendor product # evs @ [UsbCut], Inr True)))))"

subsection \<open>\<open>ThermalPrinter.print_receipt\<close>\<close>

text \<open>
  What a call leaves behind: the events on sockets and devices, the value returned or
  the exception raised, and the database after the call.
\<close>

record outcome =
  events :: "io_event list"
  returned :: "error + bool"
  db_after :: database

definition finish :: "database \<Rightarrow> io_event list \<times> (error + bool) \<Rightarrow> outcome" where
  "finish db r = \<lparr>events = fst r, returned = snd r, db_after = db\<rparr>"

definition print_receipt ::
  "environment \<Rightarrow> database \<Rightarrow> store \<Rightarrow> cart_line list \<Rightarrow> rat \<Rightarrow> pystr \<Rightarrow> outcome" where
  "print_receipt env db store items tot payment =
     (let mode = get_setting db (lit ''printer_mode'') (lit ''network'');
          ip = get_setting db (lit ''printer_ip'') (lit ''192.168.0.100'')
      in case py_int (unicode env) (get_setting db (lit ''printer_port'') (lit ''9100'')) 10 of
           Inl e \<Rightarrow> finish db ([], Inl e)
         | Inr port \<Rightarrow>
             (let vendor = get_setting db (lit ''printer_usb_vendor'') [];
                  product = get_setting db (lit ''printer_usb_product'') []
              in case build_text store items tot payment of
                   Inl e \<Rightarrow> finish db ([], Inl e)
                 | Inr text \<Rightarrow>
                     if mode = lit ''network'' then finish db (print_network env ip port text)
                     else if mode = lit ''escpos_usb'' \<and> ESC_POS_AVAILABLE env
                             \<and> vendor \<noteq> [] \<and> product \<noteq> []
                     then
                       (case py_int (unicode env) vendor 16 of
                          Inl e \<Rightarrow> finish db ([], Inl e)
                        | Inr v \<Rightarrow>
                            (case py_int (unicode env) product 16 of
                               Inl e \<Rightarrow> finish db ([], Inl e)
                             | Inr p \<Rightarrow>
                                 finish db
                                   (print_escpos_usb env v p store items tot payment)))
                     else finish db (print_network env ip port text)))"

subsection \<open>Reading a printed amount\<close>





subsection \<open>Concrete configurations and sales\<close>

text \<open>
  An environment in which the ESC/POS module is present and every call succeeds, one in
  which the printer refuses the connection, and one in which the paper cut fails; the
  sale of the example receipt; and settings tables for the cases looked at below.
\<close>

definition working_env :: environment where
  "working_env =
     \<lparr>ESC_POS_AVAILABLE = True,
      unicode = \<lparr>unicode_isspace = (\<lambda>c. c = 133 \<or> c = 160),
                 unicode_todecimal = (\<lambda>c. None)\<rparr>,
      socket_create = None,
      socket_connect = (\<lambda>ip port. None),
      socket_sendall = (\<lambda>data_bytes. None),
      usb_open = (\<lambda>vendor product. None),
      usb_text = (\<lambda>k t. None),
      usb_cut = None\<rparr>"

definition refused_env :: environment where
  "refused_env = working_env\<lparr>socket_connect := (\<lambda>ip port. Some ConnectionRefusedError)\<rparr>"

definition jammed_env :: environment where
  "jammed_env = working_env\<lparr>usb_cut := Some OSError\<rparr>"

definition burger_store :: store where
  "burger_store = [lit ''name'' \<mapsto> lit ''Burger House'']"

definition burger_items :: "cart_line list" where
  "burger_items = [(2, lit ''Burguer Classico'', 25), (1, lit ''Refrigerante Lata'', 5)]"

definition db_of :: "(pystr \<times> pystr) list \<Rightarrow> database" where
  "db_of kvs = \<lparr>products = [], sales = [], settings = map_of kvs\<rparr>"

definition db_port_abc :: database where
  "db_port_abc = db_of [(lit ''printer_port'', lit ''abc'')]"

definition db_usb :: database where
  "db_usb =
     db_of [(lit ''printer_mode'', lit ''escpos_usb''),
            (lit ''printer_usb_vendor'', lit ''0x04b8''),
            (lit ''printer_usb_product'', lit ''0x0202'')]"

definition db_usb_no_ids :: database where
  "db_usb_no_ids = db_of [(lit ''printer_mode'', lit ''escpos_usb'')]"

text \<open>The bytes of the example receipt, as \<open>_build_text\<close> encodes them.\<close>

definition burger_text :: "byte list" where
  "burger_text =
     concat (map utf8_bytes
       (py_join [10] (build_lines burger_store burger_items 30 (lit ''Dinheiro''))))"

section \<open>Properties\<close>

subsection \<open>Header rows\<close>






subsection \<open>The database is only read\<close>


subsection \<open>The network transport\<close>

lemma print_network_result:
  "snd (print_network env ip port bs) =
     (case socket_create env of
        Some e \<Rightarrow> Inl e
      | None \<Rightarrow>
          (case socket_connect env ip port of
             Some e \<Rightarrow> Inl e
           | None \<Rightarrow> (case socket_sendall env bs of Some e \<Rightarrow> Inl e | None \<Rightarrow> Inr True)))"
  by (simp add: print_network_def split: option.split)

lemma print_network_events:
  "fst (print_network env ip port bs) =
     (if socket_create env \<noteq> None then []
      else if socket_connect env ip port \<noteq> None
      then [SocketOpen, SocketSetTimeout 5, SocketConnect ip port, SocketClose]
      else [SocketOpen, SocketSetTimeout 5, SocketConnect ip port, SocketSendAll bs, SocketClose])"
  by (auto simp add: print_network_def split: option.split)

text \<open>
  Claim C5. Whatever the host, the port and the payload, and whichever call fails: the
  socket is closed as often as it is opened; once it is open, the timeout of 5 seconds is
  set before the connection is tried, and the close is the last event. When the
  connection is refused or times out nothing is sent; when it is made, the whole payload
  goes out in one \<open>sendall\<close>, whether that call then succeeds or fails. The method
  returns \<open>True\<close> when no call fails and otherwise raises the error of the first
  call that fails.
\<close>

theorem network_transport_closes_socket:
  "count_list (fst (print_network env ip port bs)) SocketClose
     = count_list (fst (print_network env ip port bs)) SocketOpen
   \<and> (socket_create env = None \<longrightarrow>
        take 3 (fst (print_network env ip port bs))
          = [SocketOpen, SocketSetTimeout 5, SocketConnect ip port]
        \<and> last (fst (print_network env ip port bs)) = SocketClose)
   \<and> (socket_create env = None \<and> socket_connect env ip port \<noteq> None \<longrightarrow>
        fst (print_network env ip port bs)
          = [SocketOpen, SocketSetTimeout 5, SocketConnect ip port, SocketClose])
   \<and> (socket_create env = None \<and> socket_connect env ip port = None \<longrightarrow>
        fst (print_network env ip port bs)
          = [SocketOpen, SocketSetTimeout 5, SocketConnect ip port, SocketSendAll bs, SocketClose])
   \<and> snd (print_network env ip port bs) =
       (case socket_create env of
          Some e \<Rightarrow> Inl e
        | None \<Rightarrow>
            (case socket_connect env ip port of
               Some e \<Rightarrow> Inl e
             | None \<Rightarrow> (case socket_sendall env bs of Some e \<Rightarrow> Inl e | None \<Rightarrow> Inr True)))"
  by (simp add: print_network_events print_network_result)

text \<open>
  A printer that refuses the connection: the socket is opened, the timeout set, the
  connection tried, the socket closed, and \<open>ConnectionRefusedError\<close> reaches the caller.
  A printer that accepts: the two bytes are sent in one call and the socket is closed.
\<close>

theorem network_transport_closes_socket_witness:
  "fst (print_network refused_env (lit ''192.168.0.100'') 9100 [72, 105])
     = [SocketOpen, SocketSetTimeout 5, SocketConnect (lit ''192.168.0.100'') 9100, SocketClose]
   \<and> snd (print_network refused_env (lit ''192.168.0.100'') 9100 [72, 105])
     = Inl ConnectionRefusedError
   \<and> fst (print_network working_env (lit ''192.168.0.100'') 9100 [72, 105])
     = [SocketOpen, SocketSetTimeout 5, SocketConnect (lit ''192.168.0.100'') 9100,
        SocketSendAll [72, 105], SocketClose]
   \<and> snd (print_network working_env (lit ''192.168.0.100'') 9100 [72, 105]) = Inr True"
  using network_transport_closes_socket [of refused_env "lit ''192.168.0.100''" 9100 "[72, 105]"]
        network_transport_closes_socket [of working_env "lit ''192.168.0.100''" 9100 "[72, 105]"]
  by (simp add: refused_env_def working_env_def)

subsection \<open>The choice of the transport\<close>

lemma py_int_error: "py_int u s base = Inl e \<Longrightarrow> e = ValueError"
  by (auto simp add: py_int_def split: prod.splits list.splits option.splits if_splits)

lemma usb_texts_events:
  "usb_texts env k ts = (evs, r) \<Longrightarrow> ev \<in> set evs \<Longrightarrow> \<exists>t. ev = UsbText t"
proof (induction ts arbitrary: k evs r)
  case Nil
  then show ?case by simp
next
  case (Cons t ts)
  show ?case
  proof (cases "usb_text env k t")
    case (Some e)
    with Cons.prems show ?thesis by auto
  next
    case None
    obtain evs' r' where rest: "usb_texts env (Suc k) ts = (evs', r')"
      by (cases "usb_texts env (Suc k) ts")
    with None Cons.prems have "evs = UsbText t # evs'" by simp
    with Cons.prems(2) Cons.IH [OF rest] show ?thesis by auto
  qed
qed

lemma print_escpos_usb_events:
  "ev \<in> set (fst (print_escpos_usb env v p store items tot payment))
     \<Longrightarrow> ev = UsbOpen v p \<or> (\<exists>t. ev = UsbText t) \<or> ev = UsbCut"
  by (auto simp add: print_escpos_usb_def split: if_splits option.splits prod.splits
      dest: usb_texts_events)

lemma print_network_no_usb: "UsbOpen v p \<notin> set (fst (print_network env ip port bs))"
  by (simp add: print_network_def split: option.split)

lemma ne_network: "lit ''escpos_usb'' \<noteq> lit ''network''"
  by (simp add: lit_def)

lemma build_text_burger:
  "build_text burger_store burger_items 30 (lit ''Dinheiro'') = Inr burger_text"
proof -
  have "list_all encodable
          (py_join [10] (build_lines burger_store burger_items 30 (lit ''Dinheiro'')))"
    by code_simp
  then show ?thesis by (simp add: build_text_def encode_utf8_def burger_text_def)
qed

lemma port_default: "py_int (unicode working_env) (lit ''9100'') 10 = Inr 9100"
  by code_simp

lemma settings_usb_no_ids:
  "get_setting db_usb_no_ids (lit ''printer_port'') (lit ''9100'') = lit ''9100''"
  "get_setting db_usb_no_ids (lit ''printer_mode'') (lit ''network'') = lit ''escpos_usb''"
  "get_setting db_usb_no_ids (lit ''printer_ip'') (lit ''192.168.0.100'') = lit ''192.168.0.100''"
  "get_setting db_usb_no_ids (lit ''printer_usb_vendor'') [] = []"
  "get_setting db_usb_no_ids (lit ''printer_usb_product'') [] = []"
  by (simp_all add: get_setting_def db_usb_no_ids_def db_of_def lit_def)

text \<open>
  Claim C1, as amended. When the port setting is an integer literal and the receipt can
  be encoded: \<open>print_receipt\<close> takes the USB transport exactly when the mode is
  \<open>escpos_usb\<close>, the ESC/POS module is present and both identifiers are non-empty (it
  then runs \<open>_print_escpos_usb\<close>, after reading both identifiers in base 16, which raises
  \<open>ValueError\<close> for an identifier that is not a number; no socket is touched). In every
  other case the events and the result of the call are those of \<open>_print_network\<close> on
  the configured host and port with the encoded receipt.
\<close>

theorem transport_selection:
  assumes port: "py_int (unicode env) (get_setting db (lit ''printer_port'') (lit ''9100'')) 10
                   = Inr port"
      and enc: "build_text store items tot payment = Inr text"
  shows "let mode = get_setting db (lit ''printer_mode'') (lit ''network'');
             ip = get_setting db (lit ''printer_ip'') (lit ''192.168.0.100'');
             vendor = get_setting db (lit ''printer_usb_vendor'') [];
             product = get_setting db (lit ''printer_usb_product'') [];
             usb = (mode = lit ''escpos_usb'' \<and> ESC_POS_AVAILABLE env
                    \<and> vendor \<noteq> [] \<and> product \<noteq> []);
             out = print_receipt env db store items tot payment
         in (\<not> usb \<longrightarrow> (events out, returned out) = print_network env ip port text)
          \<and> (usb \<longrightarrow> (events out, returned out) =
                (case py_int (unicode env) vendor 16 of
                   Inl e \<Rightarrow> ([], Inl ValueError)
                 | Inr v \<Rightarrow>
                     (case py_int (unicode env) product 16 of
                        Inl e \<Rightarrow> ([], Inl ValueError)
                      | Inr p \<Rightarrow> print_escpos_usb env v p store items tot payment)))
          \<and> ((\<exists>v p. UsbOpen v p \<in> set (events out)) \<longrightarrow> usb)
          \<and> (usb \<longrightarrow> (\<forall>ev \<in> set (events out).
                         (\<exists>v p. ev = UsbOpen v p) \<or> (\<exists>t. ev = UsbText t) \<or> ev = UsbCut))"
proof -
  let ?mode = "get_setting db (lit ''printer_mode'') (lit ''network'')"
  let ?ip = "get_setting db (lit ''printer_ip'') (lit ''192.168.0.100'')"
  let ?vendor = "get_setting db (lit ''printer_usb_vendor'') []"
  let ?product = "get_setting db (lit ''printer_usb_product'') []"
  let ?usb = "?mode = lit ''escpos_usb'' \<and> ESC_POS_AVAILABLE env \<and> ?vendor \<noteq> [] \<and> ?product \<noteq> []"
  let ?out = "print_receipt env db store items tot payment"
  have net: "\<not> ?usb \<Longrightarrow> (events ?out, returned ?out) = print_network env ?ip port text"
    unfolding print_receipt_def Let_def using port enc by (auto simp add: finish_def)
  have usb: "?usb \<Longrightarrow> (events ?out, returned ?out) =
                (case py_int (unicode env) ?vendor 16 of
                   Inl e \<Rightarrow> ([], Inl ValueError)
                 | Inr v \<Rightarrow>
                     (case py_int (unicode env) ?product 16 of
                        Inl e \<Rightarrow> ([], Inl ValueError)
                      | Inr p \<Rightarrow> print_escpos_usb env v p store items tot payment))"
    unfolding print_receipt_def Let_def using port enc
    by (auto simp add: finish_def ne_network split: sum.splits dest: py_int_error)
  have only: "(\<exists>v p. UsbOpen v p \<in> set (events ?out)) \<Longrightarrow> ?usb"
  proof (rule ccontr)
    assume ex: "\<exists>v p. UsbOpen v p \<in> set (events ?out)" and n: "\<not> ?usb"
    from net [OF n] have "events ?out = fst (print_network env ?ip port text)"
      by (metis fst_conv)
    with ex print_network_no_usb show False by metis
  qed
  have all: "?usb \<Longrightarrow> \<forall>ev \<in> set (events ?out).
                         (\<exists>v p. ev = UsbOpen v p) \<or> (\<exists>t. ev = UsbText t) \<or> ev = UsbCut"
  proof
    fix ev
    assume u: "?usb" and ev: "ev \<in> set (events ?out)"
    from usb [OF u] have "events ?out = fst (case py_int (unicode env) ?vendor 16 of
                   Inl e \<Rightarrow> ([], Inl ValueError)
                 | Inr v \<Rightarrow>
                     (case py_int (unicode env) ?product 16 of
                        Inl e \<Rightarrow> ([], Inl ValueError)
                      | Inr p \<Rightarrow> print_escpos_usb env v p store items tot payment))"
      by (metis fst_conv)
    with ev show "(\<exists>v p. ev = UsbOpen v p) \<or> (\<exists>t. ev = UsbText t) \<or> ev = UsbCut"
      by (auto split: sum.splits dest: print_escpos_usb_events)
  qed
  show ?thesis unfolding Let_def using net usb only all by blast
qed

text \<open>
  Mode \<open>escpos_usb\<close> with the module present but no identifiers: the receipt goes to
  the default host and port over the network, and the call returns \<open>True\<close>.
\<close>

theorem transport_selection_witness:
  "events (print_receipt working_env db_usb_no_ids burger_store burger_items 30 (lit ''Dinheiro''))
     = [SocketOpen, SocketSetTimeout 5, SocketConnect (lit ''192.168.0.100'') 9100,
        SocketSendAll burger_text, SocketClose]
   \<and> returned (print_receipt working_env db_usb_no_ids burger_store burger_items 30
        (lit ''Dinheiro'')) = Inr True"
proof -
  have p: "py_int (unicode working_env)
             (get_setting db_usb_no_ids (lit ''printer_port'') (lit ''9100'')) 10 = Inr 9100"
    by (simp add: settings_usb_no_ids port_default)
  have n: "print_network working_env (lit ''192.168.0.100'') 9100 burger_text
             = ([SocketOpen, SocketSetTimeout 5, SocketConnect (lit ''192.168.0.100'') 9100,
                 SocketSendAll burger_text, SocketClose], Inr True)"
    by (simp add: print_network_def working_env_def)
  show ?thesis
    using transport_selection [OF p build_text_burger]
    by (simp add: Let_def settings_usb_no_ids n)
qed

text \<open>
  Claim C1 as stated fails for a port setting that is not a number: with the port
  \<open>abc\<close> and the mode \<open>network\<close> nothing is sent over the network, although the
  network would accept it, and the call raises \<open>ValueError\<close>, an error of its own.
\<close>

theorem transport_selection_counterexample:
  "get_setting db_port_abc (lit ''printer_mode'') (lit ''network'') = lit ''network''
   \<and> events (print_receipt working_env db_port_abc burger_store burger_items 30
        (lit ''Dinheiro'')) = []
   \<and> returned (print_receipt working_env db_port_abc burger_store burger_items 30
        (lit ''Dinheiro'')) = Inl ValueError"
  by code_simp

subsection \<open>A port that is not a number\<close>

lemma py_int_abc: "py_int u (lit ''abc'') 10 = Inl ValueError"
  by (simp add: py_int_def lit_def to_ascii_def is_space_def strip_sign_def strip_prefix_def
      digit_value_def)

lemma port_abc: "get_setting db_port_abc (lit ''printer_port'') (lit ''9100'') = lit ''abc''"
  by (simp add: get_setting_def db_port_abc_def db_of_def)

text \<open>
  Claim C4, as amended. \<open>int\<close> rejects \<open>abc\<close>, and whenever \<open>int\<close> rejects the port
  setting, \<open>print_receipt\<close> raises \<open>ValueError\<close> (the error of \<open>int\<close>) and has touched
  neither a socket nor a device.
\<close>

theorem invalid_port_fails_before_io:
  "py_int u (lit ''abc'') 10 = Inl ValueError
   \<and> (py_int (unicode env) (get_setting db (lit ''printer_port'') (lit ''9100'')) 10 = Inl e
        \<longrightarrow> returned (print_receipt env db store items tot payment) = Inl ValueError
          \<and> events (print_receipt env db store items tot payment) = [])"
proof (intro conjI impI)
  show "py_int u (lit ''abc'') 10 = Inl ValueError" by (rule py_int_abc)
next
  assume a: "py_int (unicode env) (get_setting db (lit ''printer_port'') (lit ''9100'')) 10 = Inl e"
  then have e: "e = ValueError" by (rule py_int_error)
  show "returned (print_receipt env db store items tot payment) = Inl ValueError"
    unfolding print_receipt_def Let_def using a e by (simp add: finish_def)
  show "events (print_receipt env db store items tot payment) = []"
    unfolding print_receipt_def Let_def using a by (simp add: finish_def)
qed

text \<open>The settings table with the port \<open>abc\<close>.\<close>

theorem invalid_port_fails_before_io_witness:
  "returned (print_receipt working_env db_port_abc burger_store burger_items 30 (lit ''Dinheiro''))
     = Inl ValueError
   \<and> events (print_receipt working_env db_port_abc burger_store burger_items 30 (lit ''Dinheiro''))
     = []"
  using invalid_port_fails_before_io
    [of "unicode working_env" working_env db_port_abc ValueError burger_store burger_items 30
        "lit ''Dinheiro''"]
  by (simp add: port_abc)

text \<open>
  Claim C4 as stated fails: the error raised for the port \<open>abc\<close> is not the
  \<open>ConfigError\<close> of the specification.
\<close>

theorem invalid_port_error_counterexample:
  "returned (print_receipt working_env db_port_abc burger_store burger_items 30 (lit ''Dinheiro''))
     \<noteq> Inl ConfigError"
proof -
  have "returned (print_receipt working_env db_port_abc burger_store burger_items 30
          (lit ''Dinheiro'')) = Inl ValueError"
    by code_simp
  then show ?thesis by simp
qed

subsection \<open>The USB transport\<close>

text \<open>
  Claim C6 does not hold of the program. A sale printed over USB with every call
  succeeding: the device is opened, seven texts and the cut are sent, the method returns
  \<open>True\<close>, and no event closes the device. With a cut that fails the last event is the
  cut, and the error reaches the caller with the device still open.
\<close>

theorem usb_device_never_closed:
  "events (print_receipt working_env db_usb burger_store burger_items 30 (lit ''Dinheiro''))
     = [UsbOpen 1208 514,
        UsbText (lit ''Burger House'' @ [10]),
        UsbText (replicate 32 45 @ [10]),
        UsbText (lit ''2x Burguer Classico - 25.00'' @ [10]),
        UsbText (lit ''1x Refrigerante Lata - 5.00'' @ [10]),
        UsbText (replicate 32 45 @ [10]),
        UsbText (lit ''TOTAL: 30.00'' @ [10]),
        UsbText (lit ''Pagamento: Dinheiro'' @ [10]),
        UsbCut]
   \<and> returned (print_receipt working_env db_usb burger_store burger_items 30
        (lit ''Dinheiro'')) = Inr True
   \<and> last (events (print_receipt jammed_env db_usb burger_store burger_items 30
        (lit ''Dinheiro''))) = UsbCut
   \<and> returned (print_receipt jammed_env db_usb burger_store burger_items 30
        (lit ''Dinheiro'')) = Inl OSError"
  by code_simp

subsection \<open>The TOTAL row\<close>

text \<open>
  Claim C2 does not hold of the program. For the example sale with the total 30.00 the
  sixth row is \<open>TOTAL\<close>, 27 spaces and \<open>30.00\<close>: 37 characters, not 32.
\<close>

theorem total_row_too_wide:
  "build_lines burger_store burger_items 30 (lit ''Dinheiro'') ! 5
     = lit ''TOTAL                           30.00''
   \<and> length (build_lines burger_store burger_items 30 (lit ''Dinheiro'') ! 5) = 37"
  by code_simp

subsection \<open>Item rows\<close>












subsection \<open>Displayed amounts and the displayed total\<close>

















subsection \<open>The formatter returns\<close>














end
